theory Spec2Isabelle
  imports Complex_Main
begin

section \<open>The EM fit of a two-component Poisson mixture (assignment-04/em.ipynb)\<close>

text \<open>
  The notebook's \<^verbatim>\<open>em_algorithm(data, tol, max_iter)\<close> is embedded as a HOL function. The
  control flow, the arrays and the order of the operations are those of the source. The
  arithmetic of numpy and scipy is not part of the repository: every operation of theirs that
  rounds or overflows is a parameter of the embedding, so that a statement proved for all
  operations holds for the float64 ones.
\<close>

subsection \<open>float64 values\<close>

text \<open>
  A float64 is a real number, \<^verbatim>\<open>inf\<close>, \<^verbatim>\<open>-inf\<close> or \<^verbatim>\<open>nan\<close>. The sign of a zero is not kept.
\<close>

datatype npfloat = Fin real | PInf | NInf | NaN

fun is_finite :: "npfloat \<Rightarrow> bool" where
  "is_finite (Fin a) = True"
| "is_finite x = False"

text \<open>Negation, \<^verbatim>\<open>abs\<close> and \<^verbatim>\<open><\<close> are exact on float64; a comparison with \<^verbatim>\<open>nan\<close> is false.\<close>

fun np_neg :: "npfloat \<Rightarrow> npfloat" where
  "np_neg (Fin a) = Fin (- a)"
| "np_neg PInf = NInf"
| "np_neg NInf = PInf"
| "np_neg NaN = NaN"

fun np_abs :: "npfloat \<Rightarrow> npfloat" where
  "np_abs (Fin a) = Fin \<bar>a\<bar>"
| "np_abs PInf = PInf"
| "np_abs NInf = PInf"
| "np_abs NaN = NaN"

fun np_less :: "npfloat \<Rightarrow> npfloat \<Rightarrow> bool" where
  "np_less (Fin a) (Fin b) = (a < b)"
| "np_less NaN y = False"
| "np_less x NaN = False"
| "np_less x NInf = False"
| "np_less PInf y = False"
| "np_less x PInf = True"
| "np_less NInf y = True"

subsection \<open>The operations of numpy and scipy\<close>

text \<open>
  The operations the function calls, as they act on float64 values: \<^verbatim>\<open>+\<close>, \<^verbatim>\<open>-\<close>, \<^verbatim>\<open>*\<close>, \<^verbatim>\<open>/\<close>,
  \<^verbatim>\<open>np.exp\<close>, \<^verbatim>\<open>np.log\<close>, \<^verbatim>\<open>mu ** x\<close> and \<^verbatim>\<open>scipy.special.factorial(x)\<close> for an entry \<open>x\<close> of the
  sample, \<^verbatim>\<open>np.sum\<close> and \<^verbatim>\<open>np.mean\<close> of an array. None of them raises: numpy warns and returns
  \<^verbatim>\<open>inf\<close> or \<^verbatim>\<open>nan\<close>.
\<close>

record np_ops =
  np_add :: "npfloat \<Rightarrow> npfloat \<Rightarrow> npfloat"
  np_sub :: "npfloat \<Rightarrow> npfloat \<Rightarrow> npfloat"
  np_mul :: "npfloat \<Rightarrow> npfloat \<Rightarrow> npfloat"
  np_div :: "npfloat \<Rightarrow> npfloat \<Rightarrow> npfloat"
  np_exp :: "npfloat \<Rightarrow> npfloat"
  np_log :: "npfloat \<Rightarrow> npfloat"
  np_pow :: "npfloat \<Rightarrow> int \<Rightarrow> npfloat"
  factorial :: "int \<Rightarrow> npfloat"
  np_sum :: "npfloat list \<Rightarrow> npfloat"
  np_mean :: "npfloat list \<Rightarrow> npfloat"

text \<open>
  A sample is an array of integer counts. Negative entries are possible inputs; entries that
  are not integers are outside the embedding. An entry as a float64:
\<close>

definition count :: "int \<Rightarrow> npfloat" where
  "count x = Fin (of_int x)"

subsection \<open>The parameters and their initialisation\<close>

text \<open>The parameters in the order the code passes them: \<open>(mu1, mu2, pi1, pi2)\<close>.\<close>

type_synonym params = "npfloat \<times> npfloat \<times> npfloat \<times> npfloat"

definition initialize_parameters :: params where
  "initialize_parameters =
     (let mean_with_planning = Fin 2;
          mean_without_planning = Fin 5;
          proportion_with_planning = Fin (1 / 2);
          proportion_without_planning = Fin (1 / 2)
      in (mean_with_planning, mean_without_planning,
          proportion_with_planning, proportion_without_planning))"

subsection \<open>One iteration\<close>

text \<open>
  One element of \<^verbatim>\<open>pi * np.exp(-mu) * (mu**data) / factorial(data)\<close>, evaluated left to right.
\<close>

definition weighted_pmf :: "np_ops \<Rightarrow> npfloat \<Rightarrow> npfloat \<Rightarrow> int \<Rightarrow> npfloat" where
  "weighted_pmf ops w mu x =
     np_div ops (np_mul ops (np_mul ops w (np_exp ops (np_neg mu))) (np_pow ops mu x))
       (factorial ops x)"

text \<open>
  The E-step: the unnormalised arrays, their elementwise sum, and the two in-place divisions.
  The result is \<open>(r1, r2, total_responsibility)\<close>.
\<close>

definition e_step ::
  "np_ops \<Rightarrow> int list \<Rightarrow> params \<Rightarrow> npfloat list \<times> npfloat list \<times> npfloat list" where
  "e_step ops data = (\<lambda>(mu1, mu2, pi1, pi2).
     let r1 = map (weighted_pmf ops pi1 mu1) data;
         r2 = map (weighted_pmf ops pi2 mu2) data;
         total_responsibility = map2 (np_add ops) r1 r2;
         r1 = map2 (np_div ops) r1 total_responsibility;
         r2 = map2 (np_div ops) r2 total_responsibility
     in (r1, r2, total_responsibility))"

text \<open>The M-step, from the normalised responsibilities.\<close>

definition m_step :: "np_ops \<Rightarrow> int list \<Rightarrow> npfloat list \<Rightarrow> npfloat list \<Rightarrow> params" where
  "m_step ops data r1 r2 =
     (let pi1 = np_mean ops r1;
          pi2 = np_sub ops (Fin 1) pi1;
          mu1 = np_div ops (np_sum ops (map2 (np_mul ops) r1 (map count data))) (np_sum ops r1);
          mu2 = np_div ops (np_sum ops (map2 (np_mul ops) r2 (map count data))) (np_sum ops r2)
      in (mu1, mu2, pi1, pi2))"

text \<open>What the loop prints when it breaks: \<^verbatim>\<open>Converged after {iteration} iterations.\<close>\<close>

datatype message = Converged_after nat

text \<open>
  The state of the loop: the parameters, \<^verbatim>\<open>log_likelihoods\<close>, and the lines printed so far.
\<close>

type_synonym loop_state = "params \<times> npfloat list \<times> message list"

text \<open>The body of the loop up to and including the \<^verbatim>\<open>append\<close>.\<close>

definition iteration_body ::
  "np_ops \<Rightarrow> int list \<Rightarrow> params \<times> npfloat list \<Rightarrow> params \<times> npfloat list" where
  "iteration_body ops data = (\<lambda>(s, log_likelihoods).
     case e_step ops data s of (r1, r2, total_responsibility) \<Rightarrow>
       let s' = m_step ops data r1 r2;
           log_likelihood = np_sum ops (map (np_log ops) total_responsibility)
       in (s', log_likelihoods @ [log_likelihood]))"

text \<open>
  The convergence test on the last two entries. Python evaluates the second conjunct only
  when \<open>iteration > 0\<close>, where the list has at least two entries.
\<close>

definition converged :: "np_ops \<Rightarrow> nat \<Rightarrow> npfloat list \<Rightarrow> npfloat \<Rightarrow> bool" where
  "converged ops iteration log_likelihoods tol \<longleftrightarrow>
     iteration > 0 \<and>
     np_less (np_abs (np_sub ops (last log_likelihoods)
                                 (log_likelihoods ! (length log_likelihoods - 2)))) tol"

text \<open>
  \<^verbatim>\<open>for iteration in range(max_iter)\<close>: the loop over the list of iteration numbers that are
  left, with its \<^verbatim>\<open>break\<close>.
\<close>

fun em_for :: "np_ops \<Rightarrow> int list \<Rightarrow> npfloat \<Rightarrow> nat list \<Rightarrow> loop_state \<Rightarrow> loop_state" where
  "em_for ops data tol [] st = st"
| "em_for ops data tol (iteration # rest) (s, log_likelihoods, out) =
     (case iteration_body ops data (s, log_likelihoods) of (s', log_likelihoods') \<Rightarrow>
        if converged ops iteration log_likelihoods' tol
        then (s', log_likelihoods', out @ [Converged_after iteration])
        else em_for ops data tol rest (s', log_likelihoods', out))"

text \<open>
  The function from the first line after the initialisation to its \<^verbatim>\<open>return\<close>, for any
  starting parameters: the returned five-tuple, and what was printed.
\<close>

type_synonym fit_result =
  "(npfloat \<times> npfloat \<times> npfloat \<times> npfloat \<times> npfloat list) \<times> message list"

definition em_from :: "np_ops \<Rightarrow> params \<Rightarrow> int list \<Rightarrow> npfloat \<Rightarrow> int \<Rightarrow> fit_result" where
  "em_from ops s0 data tol max_iter =
     (case em_for ops data tol [0..<nat max_iter] (s0, [], []) of
        ((mu1, mu2, pi1, pi2), log_likelihoods, out) \<Rightarrow>
          ((mu1, mu2, pi1, pi2, log_likelihoods), out))"

text \<open>
  \<^verbatim>\<open>em_algorithm\<close>: its parameters are the sample, the tolerance and the iteration cap, and
  its first statement binds the local names \<^verbatim>\<open>mu1, mu2, pi1, pi2\<close>.
\<close>

definition em_algorithm :: "np_ops \<Rightarrow> int list \<Rightarrow> npfloat \<Rightarrow> int \<Rightarrow> fit_result" where
  "em_algorithm ops data tol max_iter = em_from ops initialize_parameters data tol max_iter"

text \<open>The components of the returned tuple.\<close>

fun returned_params :: "fit_result \<Rightarrow> params" where
  "returned_params ((mu1, mu2, pi1, pi2, log_likelihoods), out) = (mu1, mu2, pi1, pi2)"

fun returned_trace :: "fit_result \<Rightarrow> npfloat list" where
  "returned_trace ((mu1, mu2, pi1, pi2, log_likelihoods), out) = log_likelihoods"

fun printed :: "fit_result \<Rightarrow> message list" where
  "printed (r, out) = out"

subsection \<open>The module-level variables and the cells that assign them\<close>

text \<open>
  The notebook keeps its data and results in module-level variables. \<^verbatim>\<open>em_data\<close> is loaded
  by the second cell. The third cell ends with
  \<^verbatim>\<open>mu1, mu2, pi1, pi2 = initialize_parameters()\<close>, the fourth with
  \<^verbatim>\<open>mean_with, mean_without, prop_with, prop_without, log_likelihoods = em_algorithm(em_data)\<close>.
  A variable that is not assigned yet is \<open>None\<close>.
\<close>

record module_state =
  g_em_data :: "int list"
  g_mu1 :: "npfloat option"
  g_mu2 :: "npfloat option"
  g_pi1 :: "npfloat option"
  g_pi2 :: "npfloat option"
  g_mean_with :: "npfloat option"
  g_mean_without :: "npfloat option"
  g_prop_with :: "npfloat option"
  g_prop_without :: "npfloat option"
  g_log_likelihoods :: "npfloat list option"

definition initialize_cell :: "module_state \<Rightarrow> module_state" where
  "initialize_cell g =
     (case initialize_parameters of
        (mu1, mu2, pi1, pi2) \<Rightarrow>
          g\<lparr>g_mu1 := Some mu1, g_mu2 := Some mu2, g_pi1 := Some pi1, g_pi2 := Some pi2\<rparr>)"

text \<open>The defaults of \<^verbatim>\<open>em_algorithm\<close>: \<^verbatim>\<open>tol=1e-6\<close>, as the float64 it denotes, and \<^verbatim>\<open>max_iter=100\<close>.\<close>

definition default_tol :: npfloat where
  "default_tol = Fin (4722366482869645 / 2 ^ 72)"

definition default_max_iter :: int where
  "default_max_iter = 100"


subsection \<open>The iteration as a function of the parameters\<close>

definition em_step :: "np_ops \<Rightarrow> int list \<Rightarrow> params \<Rightarrow> params" where
  "em_step ops data s =
     (case e_step ops data s of (r1, r2, total_responsibility) \<Rightarrow> m_step ops data r1 r2)"

definition log_likelihood :: "np_ops \<Rightarrow> int list \<Rightarrow> params \<Rightarrow> npfloat" where
  "log_likelihood ops data s =
     (case e_step ops data s of (r1, r2, total_responsibility) \<Rightarrow>
        np_sum ops (map (np_log ops) total_responsibility))"

text \<open>The parameters at the start of iteration \<open>k\<close>, and the log-likelihood appended in it.\<close>

definition params_at :: "np_ops \<Rightarrow> params \<Rightarrow> int list \<Rightarrow> nat \<Rightarrow> params" where
  "params_at ops s0 data k = (em_step ops data ^^ k) s0"

definition loglik_at :: "np_ops \<Rightarrow> params \<Rightarrow> int list \<Rightarrow> nat \<Rightarrow> npfloat" where
  "loglik_at ops s0 data k = log_likelihood ops data (params_at ops s0 data k)"

text \<open>The test the loop makes at the end of iteration \<open>k\<close>.\<close>

definition stops_at :: "np_ops \<Rightarrow> params \<Rightarrow> int list \<Rightarrow> npfloat \<Rightarrow> nat \<Rightarrow> bool" where
  "stops_at ops s0 data tol k \<longleftrightarrow>
     0 < k \<and>
     np_less (np_abs (np_sub ops (loglik_at ops s0 data k) (loglik_at ops s0 data (k - 1)))) tol"

text \<open>
  The iteration at which the loop breaks, if it does (the first one that passes the test),
  and the number of iterations that are completed.
\<close>

definition stop_index :: "np_ops \<Rightarrow> params \<Rightarrow> int list \<Rightarrow> npfloat \<Rightarrow> int \<Rightarrow> nat option" where
  "stop_index ops s0 data tol max_iter = find (stops_at ops s0 data tol) [0..<nat max_iter]"

definition completed :: "np_ops \<Rightarrow> params \<Rightarrow> int list \<Rightarrow> npfloat \<Rightarrow> int \<Rightarrow> nat" where
  "completed ops s0 data tol max_iter =
     (case stop_index ops s0 data tol max_iter of None \<Rightarrow> nat max_iter | Some k \<Rightarrow> Suc k)"

text \<open>The two unnormalised arrays of the E-step, and the mass of each component.\<close>

definition unnormalised :: "np_ops \<Rightarrow> int list \<Rightarrow> params \<Rightarrow> npfloat list \<times> npfloat list" where
  "unnormalised ops data = (\<lambda>(mu1, mu2, pi1, pi2).
     (map (weighted_pmf ops pi1 mu1) data, map (weighted_pmf ops pi2 mu2) data))"

definition mass1 :: "np_ops \<Rightarrow> int list \<Rightarrow> params \<Rightarrow> npfloat" where
  "mass1 ops data s = (case e_step ops data s of (r1, r2, total_responsibility) \<Rightarrow> np_sum ops r1)"

definition mass2 :: "np_ops \<Rightarrow> int list \<Rightarrow> params \<Rightarrow> npfloat" where
  "mass2 ops data s = (case e_step ops data s of (r1, r2, total_responsibility) \<Rightarrow> np_sum ops r2)"

subsection \<open>The reference EM step\<close>





subsection \<open>Arithmetic without rounding\<close>



definition inf_signed :: "bool \<Rightarrow> npfloat" where
  "inf_signed positive = (if positive then PInf else NInf)"

fun r_add :: "(real \<Rightarrow> npfloat) \<Rightarrow> npfloat \<Rightarrow> npfloat \<Rightarrow> npfloat" where
  "r_add clip (Fin a) (Fin b) = clip (a + b)"
| "r_add clip NaN y = NaN"
| "r_add clip x NaN = NaN"
| "r_add clip PInf NInf = NaN"
| "r_add clip NInf PInf = NaN"
| "r_add clip PInf y = PInf"
| "r_add clip x PInf = PInf"
| "r_add clip NInf y = NInf"
| "r_add clip x NInf = NInf"

definition r_sub :: "(real \<Rightarrow> npfloat) \<Rightarrow> npfloat \<Rightarrow> npfloat \<Rightarrow> npfloat" where
  "r_sub clip x y = r_add clip x (np_neg y)"

fun r_mul :: "(real \<Rightarrow> npfloat) \<Rightarrow> npfloat \<Rightarrow> npfloat \<Rightarrow> npfloat" where
  "r_mul clip (Fin a) (Fin b) = clip (a * b)"
| "r_mul clip NaN y = NaN"
| "r_mul clip x NaN = NaN"
| "r_mul clip PInf (Fin b) = (if b = 0 then NaN else inf_signed (0 < b))"
| "r_mul clip NInf (Fin b) = (if b = 0 then NaN else inf_signed (b < 0))"
| "r_mul clip (Fin a) PInf = (if a = 0 then NaN else inf_signed (0 < a))"
| "r_mul clip (Fin a) NInf = (if a = 0 then NaN else inf_signed (a < 0))"
| "r_mul clip PInf PInf = PInf"
| "r_mul clip NInf NInf = PInf"
| "r_mul clip PInf NInf = NInf"
| "r_mul clip NInf PInf = NInf"

fun r_div :: "(real \<Rightarrow> npfloat) \<Rightarrow> npfloat \<Rightarrow> npfloat \<Rightarrow> npfloat" where
  "r_div clip (Fin a) (Fin b) =
     (if b = 0 then (if a = 0 then NaN else inf_signed (0 < a)) else clip (a / b))"
| "r_div clip NaN y = NaN"
| "r_div clip x NaN = NaN"
| "r_div clip (Fin a) y = Fin 0"
| "r_div clip PInf (Fin b) = inf_signed (0 \<le> b)"
| "r_div clip NInf (Fin b) = inf_signed (b < 0)"
| "r_div clip x y = NaN"

fun r_exp :: "(real \<Rightarrow> npfloat) \<Rightarrow> npfloat \<Rightarrow> npfloat" where
  "r_exp clip (Fin a) = clip (exp a)"
| "r_exp clip PInf = PInf"
| "r_exp clip NInf = Fin 0"
| "r_exp clip NaN = NaN"

fun r_log :: "(real \<Rightarrow> npfloat) \<Rightarrow> npfloat \<Rightarrow> npfloat" where
  "r_log clip (Fin a) = (if 0 < a then clip (ln a) else if a = 0 then NInf else NaN)"
| "r_log clip PInf = PInf"
| "r_log clip NInf = NaN"
| "r_log clip NaN = NaN"

text \<open>
  \<^verbatim>\<open>mu ** x\<close> for an integer \<open>x\<close>: any base to the power zero is one, also \<^verbatim>\<open>nan\<close> and the
  infinities; zero to a negative power is \<^verbatim>\<open>inf\<close>.
\<close>

fun r_pow :: "(real \<Rightarrow> npfloat) \<Rightarrow> npfloat \<Rightarrow> int \<Rightarrow> npfloat" where
  "r_pow clip (Fin a) x =
     (if 0 \<le> x then clip (a ^ nat x)
      else if a = 0 then PInf else clip (1 / a ^ nat (- x)))"
| "r_pow clip PInf x = (if x = 0 then Fin 1 else if 0 < x then PInf else Fin 0)"
| "r_pow clip NInf x =
     (if x = 0 then Fin 1 else if 0 < x then (if odd x then NInf else PInf) else Fin 0)"
| "r_pow clip NaN x = (if x = 0 then Fin 1 else NaN)"

text \<open>\<^verbatim>\<open>scipy.special.factorial\<close>: zero for a negative argument.\<close>

definition r_factorial :: "(real \<Rightarrow> npfloat) \<Rightarrow> int \<Rightarrow> npfloat" where
  "r_factorial clip x = (if x < 0 then Fin 0 else clip (fact (nat x)))"

text \<open>
  \<^verbatim>\<open>np.sum\<close> adds from the left, starting from zero (numpy does so up to eight elements, and
  in blocks beyond); \<^verbatim>\<open>np.mean\<close> divides the sum by the number of elements.
\<close>

definition r_sum :: "(real \<Rightarrow> npfloat) \<Rightarrow> npfloat list \<Rightarrow> npfloat" where
  "r_sum clip xs = foldl (r_add clip) (Fin 0) xs"

definition r_mean :: "(real \<Rightarrow> npfloat) \<Rightarrow> npfloat list \<Rightarrow> npfloat" where
  "r_mean clip xs = r_div clip (r_sum clip xs) (Fin (real (length xs)))"

definition arith :: "(real \<Rightarrow> npfloat) \<Rightarrow> np_ops" where
  "arith clip =
     \<lparr>np_add = r_add clip, np_sub = r_sub clip, np_mul = r_mul clip, np_div = r_div clip,
      np_exp = r_exp clip, np_log = r_log clip, np_pow = r_pow clip,
      factorial = r_factorial clip, np_sum = r_sum clip, np_mean = r_mean clip\<rparr>"

definition exact_arith :: np_ops where
  "exact_arith = arith Fin"


text \<open>
  The log-likelihood of the first iteration on the sample with the single count 0:
  \<open>ln (0.5 \<cdot> exp(-2) + 0.5 \<cdot> exp(-5))\<close>, about \<open>-2.64\<close>; and the first weight after it.
\<close>

definition first_loglik :: real where
  "first_loglik = ln (exp (- 2) / 2 + exp (- 5) / 2)"

definition first_weight :: real where
  "first_weight = (exp (- 2) / 2) / (exp (- 2) / 2 + exp (- 5) / 2)"



section \<open>Properties\<close>


subsection \<open>The loop\<close>

lemma iteration_body_eq:
  "iteration_body ops data (s, lls) = (em_step ops data s, lls @ [log_likelihood ops data s])"
  by (simp add: iteration_body_def em_step_def log_likelihood_def Let_def split: prod.splits)

lemma params_at_Suc: "em_step ops data (params_at ops s0 data k) = params_at ops s0 data (Suc k)"
  by (simp add: params_at_def)

lemma params_at_0: "params_at ops s0 data 0 = s0"
  by (simp add: params_at_def)

lemma params_at_add:
  "params_at ops (params_at ops s0 data j) data k = params_at ops s0 data (k + j)"
  by (simp add: params_at_def funpow_add)

lemma loglik_at_add:
  "loglik_at ops (params_at ops s0 data j) data k = loglik_at ops s0 data (k + j)"
  by (simp add: loglik_at_def params_at_add)

lemma converged_trace:
  "converged ops i (map (loglik_at ops s0 data) [0..<Suc i]) tol = stops_at ops s0 data tol i"
proof (cases i)
  case 0
  then show ?thesis by (simp add: converged_def stops_at_def)
next
  case (Suc j)
  have "map (loglik_at ops s0 data) [0..<Suc (Suc j)] ! j = loglik_at ops s0 data j"
    by (simp only: nth_map_upt) simp
  then show ?thesis
    using Suc by (simp add: converged_def stops_at_def)
qed

lemma em_for_upt:
  "i \<le> n \<Longrightarrow>
   em_for ops data tol [i..<n]
     (params_at ops s0 data i, map (loglik_at ops s0 data) [0..<i], out) =
     (case find (stops_at ops s0 data tol) [i..<n] of
        None \<Rightarrow> (params_at ops s0 data n, map (loglik_at ops s0 data) [0..<n], out)
      | Some k \<Rightarrow> (params_at ops s0 data (Suc k), map (loglik_at ops s0 data) [0..<Suc k],
                   out @ [Converged_after k]))"
proof (induction "n - i" arbitrary: i)
  case 0
  then show ?case by simp
next
  case (Suc d)
  then have lt: "i < n" and d: "d = n - Suc i" and le: "Suc i \<le> n" by simp_all
  have body: "iteration_body ops data (params_at ops s0 data i, map (loglik_at ops s0 data) [0..<i])
              = (params_at ops s0 data (Suc i), map (loglik_at ops s0 data) [0..<Suc i])"
    by (simp add: iteration_body_eq params_at_Suc loglik_at_def)
  show ?case
  proof (cases "stops_at ops s0 data tol i")
    case True
    then show ?thesis
      by (simp only: upt_conv_Cons [OF lt] em_for.simps body prod.case converged_trace
          find.simps if_True option.case)
  next
    case False
    then show ?thesis
      using Suc.hyps(1) [OF d le]
      by (simp only: upt_conv_Cons [OF lt] em_for.simps body prod.case converged_trace
          find.simps if_False)
  qed
qed

lemma em_from_char:
  "em_from ops s0 data tol max_iter =
     (case params_at ops s0 data (completed ops s0 data tol max_iter) of
        (mu1, mu2, pi1, pi2) \<Rightarrow>
        ((mu1, mu2, pi1, pi2,
          map (loglik_at ops s0 data) [0..<completed ops s0 data tol max_iter]),
         (case stop_index ops s0 data tol max_iter of None \<Rightarrow> []
          | Some k \<Rightarrow> [Converged_after k])))"
proof -
  have "em_for ops data tol [0..<nat max_iter] (s0, [], []) =
     (case find (stops_at ops s0 data tol) [0..<nat max_iter] of
        None \<Rightarrow> (params_at ops s0 data (nat max_iter),
                 map (loglik_at ops s0 data) [0..<nat max_iter], [])
      | Some k \<Rightarrow> (params_at ops s0 data (Suc k), map (loglik_at ops s0 data) [0..<Suc k],
                   [] @ [Converged_after k]))"
    using em_for_upt [of 0 "nat max_iter" ops data tol s0 "[]"] by (simp add: params_at_0)
  then show ?thesis
    by (simp add: em_from_def completed_def stop_index_def split: option.splits prod.splits)
qed

lemma returned_trace_em_from:
  "returned_trace (em_from ops s0 data tol n) =
     map (loglik_at ops s0 data) [0..<completed ops s0 data tol n]"
  by (simp add: em_from_char split: prod.splits)

lemma returned_params_em_from:
  "returned_params (em_from ops s0 data tol n) =
     params_at ops s0 data (completed ops s0 data tol n)"
  by (simp add: em_from_char split: prod.splits)

lemma printed_em_from:
  "printed (em_from ops s0 data tol n) =
     (case stop_index ops s0 data tol n of None \<Rightarrow> [] | Some k \<Rightarrow> [Converged_after k])"
  by (simp add: em_from_char split: prod.splits)

lemma length_trace_em_from:
  "length (returned_trace (em_from ops s0 data tol n)) = completed ops s0 data tol n"
  by (simp add: returned_trace_em_from)

lemma stop_index_SomeI:
  assumes "k < nat n" "stops_at ops s0 data tol k"
    "\<And>j. j < k \<Longrightarrow> \<not> stops_at ops s0 data tol j"
  shows "stop_index ops s0 data tol n = Some k"
  unfolding stop_index_def find_Some_iff
  using assms by (intro exI [of _ k]) simp

lemma stop_index_NoneI:
  assumes "\<And>j. j < nat n \<Longrightarrow> \<not> stops_at ops s0 data tol j"
  shows "stop_index ops s0 data tol n = None"
  unfolding stop_index_def find_None_iff using assms by simp

lemma stop_index_SomeD:
  assumes "stop_index ops s0 data tol n = Some k"
  shows "k < nat n" "stops_at ops s0 data tol k" "0 < k"
    "j < k \<Longrightarrow> \<not> stops_at ops s0 data tol j"
proof -
  from assms obtain i where i: "i < length [0..<nat n]" "stops_at ops s0 data tol ([0..<nat n] ! i)"
    "k = [0..<nat n] ! i" "\<forall>j<i. \<not> stops_at ops s0 data tol ([0..<nat n] ! j)"
    unfolding stop_index_def find_Some_iff by blast
  then have ki: "k = i" and kn: "k < nat n" by simp_all
  show "k < nat n" by (rule kn)
  show "stops_at ops s0 data tol k" using i(2,3) by simp
  then show "0 < k" by (simp add: stops_at_def)
  show "\<not> stops_at ops s0 data tol j" if "j < k"
    using i(4) that ki kn by simp
qed

lemma stop_index_NoneD:
  "stop_index ops s0 data tol n = None \<Longrightarrow> j < nat n \<Longrightarrow> \<not> stops_at ops s0 data tol j"
  unfolding stop_index_def find_None_iff by simp

lemma not_stops_at_0: "\<not> stops_at ops s0 data tol 0"
  by (simp add: stops_at_def)

lemma completed_bounds:
  "completed ops s0 data tol n \<le> nat n" "0 < n \<Longrightarrow> 0 < completed ops s0 data tol n"
  by (auto simp: completed_def dest: stop_index_SomeD(1) split: option.splits)

lemma completed_ge_2: "2 \<le> n \<Longrightarrow> 2 \<le> completed ops s0 data tol n"
  by (auto simp: completed_def dest: stop_index_SomeD(3) split: option.splits)


subsection \<open>Evaluating the arithmetic without rounding\<close>

lemma arith_sel:
  "np_add (arith clip) = r_add clip" "np_sub (arith clip) = r_sub clip"
  "np_mul (arith clip) = r_mul clip" "np_div (arith clip) = r_div clip"
  "np_exp (arith clip) = r_exp clip" "np_log (arith clip) = r_log clip"
  "np_pow (arith clip) = r_pow clip" "factorial (arith clip) = r_factorial clip"
  "np_sum (arith clip) = r_sum clip" "np_mean (arith clip) = r_mean clip"
  by (simp_all add: arith_def)

lemmas exact_sel = arith_sel [of Fin, folded exact_arith_def]

lemma e_step_empty: "e_step ops [] s = ([], [], [])"
  by (cases s) (simp add: e_step_def)

lemma em_step_empty: "em_step exact_arith [] s = (NaN, NaN, NaN, NaN)"
  by (simp add: em_step_def e_step_empty m_step_def exact_sel r_mean_def r_sum_def r_sub_def)

lemma log_likelihood_empty: "log_likelihood exact_arith [] s = Fin 0"
  by (simp add: log_likelihood_def e_step_empty exact_sel r_sum_def)

lemma params_at_empty: "params_at exact_arith s0 [] (Suc k) = (NaN, NaN, NaN, NaN)"
  by (simp add: params_at_def em_step_empty)

lemma loglik_at_empty: "loglik_at exact_arith s0 [] k = Fin 0"
  by (simp add: loglik_at_def log_likelihood_empty)

lemma stops_at_empty: "0 < t \<Longrightarrow> stops_at exact_arith s0 [] (Fin t) (Suc 0)"
  by (simp add: stops_at_def loglik_at_empty exact_sel r_sub_def)

lemma stop_index_empty:
  assumes "0 < t" "2 \<le> n"
  shows "stop_index exact_arith s0 [] (Fin t) n = Some (Suc 0)"
  using assms by (intro stop_index_SomeI) (simp_all add: stops_at_empty not_stops_at_0)

subsection \<open>The sample with the single count 0\<close>

lemma weighted_pmf_exact_0: "weighted_pmf exact_arith (Fin w) (Fin m) 0 = Fin (w * exp (- m))"
  by (simp add: weighted_pmf_def exact_sel r_factorial_def)

lemma single_zero_step:
  assumes "0 < p1" "0 < p2"
  shows "em_step exact_arith [0] (Fin m1, Fin m2, Fin p1, Fin p2) =
           (Fin 0, Fin 0,
            Fin (p1 * exp (- m1) / (p1 * exp (- m1) + p2 * exp (- m2))),
            Fin (1 - p1 * exp (- m1) / (p1 * exp (- m1) + p2 * exp (- m2))))"
    and "log_likelihood exact_arith [0] (Fin m1, Fin m2, Fin p1, Fin p2) =
           Fin (ln (p1 * exp (- m1) + p2 * exp (- m2)))"
proof -
  let ?a = "p1 * exp (- m1)" and ?b = "p2 * exp (- m2)"
  have a: "0 < ?a" and b: "0 < ?b" using assms by simp_all
  then have t: "0 < ?a + ?b" by (rule add_pos_pos)
  have e: "e_step exact_arith [0] (Fin m1, Fin m2, Fin p1, Fin p2) =
             ([Fin (?a / (?a + ?b))], [Fin (?b / (?a + ?b))], [Fin (?a + ?b)])"
    using t by (simp add: e_step_def weighted_pmf_exact_0 exact_sel)
  have r: "?a / (?a + ?b) \<noteq> 0" "?b / (?a + ?b) \<noteq> 0" using assms t by simp_all
  show "em_step exact_arith [0] (Fin m1, Fin m2, Fin p1, Fin p2) =
           (Fin 0, Fin 0, Fin (?a / (?a + ?b)), Fin (1 - ?a / (?a + ?b)))"
    unfolding em_step_def e prod.case using r
    by (simp add: m_step_def exact_sel r_mean_def r_sum_def r_sub_def count_def Let_def)
  show "log_likelihood exact_arith [0] (Fin m1, Fin m2, Fin p1, Fin p2) = Fin (ln (?a + ?b))"
    unfolding log_likelihood_def e prod.case using t
    by (simp add: exact_sel r_sum_def)
qed

lemma first_weight_bounds: "0 < first_weight" "first_weight < 1"
proof -
  have "0 < exp (- 2 :: real) / 2" "0 < exp (- 5 :: real) / 2" by simp_all
  then show "0 < first_weight" "first_weight < 1"
    unfolding first_weight_def by (simp_all add: add_pos_pos)
qed

lemma params_single_zero:
  "params_at exact_arith initialize_parameters [0] (Suc k) =
     (Fin 0, Fin 0, Fin first_weight, Fin (1 - first_weight))"
proof (induction k)
  case 0
  show ?case
    using single_zero_step(1) [of "1 / 2" "1 / 2" 2 5]
    by (simp add: params_at_def initialize_parameters_def first_weight_def)
next
  case (Suc k)
  have "params_at exact_arith initialize_parameters [0] (Suc (Suc k)) =
        em_step exact_arith [0] (params_at exact_arith initialize_parameters [0] (Suc k))"
    by (simp add: params_at_def)
  also have "\<dots> = (Fin 0, Fin 0, Fin first_weight, Fin (1 - first_weight))"
    unfolding Suc using first_weight_bounds
    by (simp add: single_zero_step(1))
  finally show ?case .
qed

lemma loglik_single_zero_later: "loglik_at exact_arith initialize_parameters [0] (Suc k) = Fin 0"
  unfolding loglik_at_def params_single_zero using first_weight_bounds
  by (simp add: single_zero_step(2))

lemma loglik_single_zero_first:
  "loglik_at exact_arith initialize_parameters [0] 0 = Fin first_loglik"
  using single_zero_step(2) [of "1 / 2" "1 / 2" 2 5]
  by (simp add: loglik_at_def params_at_def initialize_parameters_def first_loglik_def)

lemma first_loglik_bounds: "- 4 < first_loglik" "first_loglik \<le> - 2"
proof -
  let ?a = "exp (- 2 :: real) / 2 + exp (- 5) / 2"
  have pos: "0 < ?a" by (simp add: add_pos_pos)
  have "exp (- 5 :: real) \<le> exp (- 2)" by simp
  then have "?a \<le> exp (- 2)" by linarith
  then have "ln ?a \<le> ln (exp (- 2 :: real))" using pos by (subst ln_le_cancel_iff) simp_all
  then show "first_loglik \<le> - 2" by (simp add: first_loglik_def)
  have "(1::real) + 2 \<le> exp 2" by (rule exp_ge_add_one_self)
  then have "exp (- 2 :: real) * 2 < exp (- 2) * exp 2" by (intro mult_strict_left_mono) simp_all
  then have small: "exp (- 2 :: real) * 2 < 1" by (simp add: exp_add [symmetric])
  have "exp (- 4 :: real) = exp (- 2) * exp (- 2)" by (simp add: exp_add [symmetric])
  moreover from small have "exp (- 2 :: real) * (exp (- 2) * 2) < exp (- 2) * 1"
    by (intro mult_strict_left_mono) simp_all
  ultimately have "exp (- 4 :: real) * 2 < exp (- 2)" by (simp add: mult.assoc)
  moreover have "0 < exp (- 5 :: real)" by simp
  ultimately have "exp (- 4 :: real) < ?a" by linarith
  then have "ln (exp (- 4 :: real)) < ln ?a" using pos by (subst ln_less_cancel_iff) simp_all
  then show "- 4 < first_loglik" by (simp add: first_loglik_def)
qed

lemma single_zero_stops:
  "stops_at exact_arith initialize_parameters [0] (Fin 4) (Suc 0)"
  "\<not> stops_at exact_arith initialize_parameters [0] (Fin 1) (Suc 0)"
  using first_loglik_bounds
  by (simp_all add: stops_at_def loglik_single_zero_later loglik_single_zero_first
      exact_sel r_sub_def)

lemma single_zero_stop_index:
  "2 \<le> n \<Longrightarrow> stop_index exact_arith initialize_parameters [0] (Fin 4) n = Some (Suc 0)"
  "stop_index exact_arith initialize_parameters [0] (Fin 1) 2 = None"
proof -
  show "stop_index exact_arith initialize_parameters [0] (Fin 4) n = Some (Suc 0)" if "2 \<le> n"
    using that by (intro stop_index_SomeI) (simp_all add: single_zero_stops not_stops_at_0)
  have "\<not> stops_at exact_arith initialize_parameters [0] (Fin 1) j" if "j < nat 2" for j
  proof -
    from that have "j = 0 \<or> j = Suc 0" by auto
    then show ?thesis by (auto simp: single_zero_stops(2) not_stops_at_0)
  qed
  then show "stop_index exact_arith initialize_parameters [0] (Fin 1) 2 = None"
    by (rule stop_index_NoneI)
qed


subsection \<open>The stopping rule\<close>

text \<open>
  Claim C5, as the code has it. With \<open>\<ell>\<^sub>k\<close> the log-likelihood appended in iteration \<open>k\<close>
  (counted from 0), the loop stops at the first iteration \<open>k > 0\<close> with
  \<open>|\<ell>\<^sub>k - \<ell>\<^sub>k\<^sub>-\<^sub>1| < tol\<close>: the trace then has \<open>k + 1\<close> entries and the convergence line is printed.
  When no iteration below \<open>max_iter\<close> passes the test, all \<open>max_iter\<close> iterations run and the
  function returns without printing anything. With \<open>max_iter = 1\<close> the trace has exactly one
  entry and nothing is printed. This holds for every arithmetic.
\<close>

theorem stopping_rule:
  "(k < nat max_iter \<and> stops_at ops initialize_parameters data tol k \<and>
      (\<forall>j<k. \<not> stops_at ops initialize_parameters data tol j) \<longrightarrow>
        length (returned_trace (em_algorithm ops data tol max_iter)) = Suc k \<and>
        printed (em_algorithm ops data tol max_iter) = [Converged_after k]) \<and>
   ((\<forall>j<nat max_iter. \<not> stops_at ops initialize_parameters data tol j) \<longrightarrow>
        length (returned_trace (em_algorithm ops data tol max_iter)) = nat max_iter \<and>
        printed (em_algorithm ops data tol max_iter) = []) \<and>
   length (returned_trace (em_algorithm ops data tol 1)) = 1 \<and>
   printed (em_algorithm ops data tol 1) = []"
proof (intro conjI impI)
  assume h: "k < nat max_iter \<and> stops_at ops initialize_parameters data tol k \<and>
      (\<forall>j<k. \<not> stops_at ops initialize_parameters data tol j)"
  then have "stop_index ops initialize_parameters data tol max_iter = Some k"
    by (intro stop_index_SomeI) simp_all
  then show "length (returned_trace (em_algorithm ops data tol max_iter)) = Suc k"
    "printed (em_algorithm ops data tol max_iter) = [Converged_after k]"
    by (simp_all add: em_algorithm_def returned_trace_em_from printed_em_from completed_def)
next
  assume "\<forall>j<nat max_iter. \<not> stops_at ops initialize_parameters data tol j"
  then have "stop_index ops initialize_parameters data tol max_iter = None"
    by (intro stop_index_NoneI) simp
  then show "length (returned_trace (em_algorithm ops data tol max_iter)) = nat max_iter"
    "printed (em_algorithm ops data tol max_iter) = []"
    by (simp_all add: em_algorithm_def returned_trace_em_from printed_em_from completed_def)
next
  have "stop_index ops initialize_parameters data tol 1 = None"
    by (intro stop_index_NoneI) (simp add: not_stops_at_0)
  then show "length (returned_trace (em_algorithm ops data tol 1)) = 1"
    "printed (em_algorithm ops data tol 1) = []"
    by (simp_all add: em_algorithm_def returned_trace_em_from printed_em_from completed_def)
qed

text \<open>
  Both branches occur on the sample \<open>[0]\<close>: with tolerance 4 the loop breaks in its second
  iteration, with tolerance 1 and two iterations allowed it runs out of iterations.
\<close>

theorem stopping_rule_witness:
  "Suc 0 < nat 3 \<and> stops_at exact_arith initialize_parameters [0] (Fin 4) (Suc 0) \<and>
   \<not> stops_at exact_arith initialize_parameters [0] (Fin 4) 0 \<and>
   length (returned_trace (em_algorithm exact_arith [0] (Fin 4) 3)) = 2 \<and>
   printed (em_algorithm exact_arith [0] (Fin 4) 3) = [Converged_after (Suc 0)] \<and>
   \<not> stops_at exact_arith initialize_parameters [0] (Fin 1) 0 \<and>
   \<not> stops_at exact_arith initialize_parameters [0] (Fin 1) (Suc 0) \<and>
   length (returned_trace (em_algorithm exact_arith [0] (Fin 1) 2)) = 2 \<and>
   printed (em_algorithm exact_arith [0] (Fin 1) 2) = []"
proof -
  have a: "\<forall>j<Suc 0. \<not> stops_at exact_arith initialize_parameters [0] (Fin 4) j"
    by (simp add: not_stops_at_0)
  have b: "\<forall>j<nat 2. \<not> stops_at exact_arith initialize_parameters [0] (Fin 1) j"
  proof (intro allI impI)
    fix j :: nat assume "j < nat 2"
    then have "j = 0 \<or> j = Suc 0" by auto
    then show "\<not> stops_at exact_arith initialize_parameters [0] (Fin 1) j"
      by (auto simp: single_zero_stops(2) not_stops_at_0)
  qed
  show ?thesis
    using stopping_rule [of "Suc 0" 3 exact_arith "[0]" "Fin 4"]
      stopping_rule [of 0 2 exact_arith "[0]" "Fin 1"]
      a b single_zero_stops
    by (simp add: not_stops_at_0)
qed

lemma single_zero_completed:
  "2 \<le> n \<Longrightarrow> completed exact_arith initialize_parameters [0] (Fin 4) n = 2"
  "completed exact_arith initialize_parameters [0] (Fin 1) 2 = 2"
  by (simp_all add: completed_def single_zero_stop_index)

text \<open>
  Claim C5 says that the fit reports non-convergence when the iterations are used up. On the
  sample \<open>[0]\<close> with tolerance 1 and two iterations allowed no iteration passes the test; the
  call prints nothing, as a call with no iteration at all does, and it returns the same tuple
  as the call with tolerance 4, which converged. Nothing the call produces says that it did
  not converge.
\<close>

theorem cap_exhaustion_is_silent:
  "\<not> stops_at exact_arith initialize_parameters [0] (Fin 1) 0 \<and>
   \<not> stops_at exact_arith initialize_parameters [0] (Fin 1) 1 \<and>
   length (returned_trace (em_algorithm exact_arith [0] (Fin 1) 2)) = 2 \<and>
   printed (em_algorithm exact_arith [0] (Fin 1) 2) = [] \<and>
   printed (em_algorithm exact_arith [0] (Fin 1) 2) =
     printed (em_algorithm exact_arith [0] (Fin 1) 0) \<and>
   fst (em_algorithm exact_arith [0] (Fin 1) 2) = fst (em_algorithm exact_arith [0] (Fin 4) 2)"
proof -
  have z: "stop_index exact_arith initialize_parameters [0] (Fin 1) 0 = None"
    by (rule stop_index_NoneI) simp
  show ?thesis
    using single_zero_stops(2)
    by (simp add: not_stops_at_0 em_algorithm_def em_from_char single_zero_completed
        single_zero_stop_index z split: prod.splits)
qed

subsection \<open>What the fit returns\<close>

text \<open>
  Claim C1 says that the fit returns an indicator of why it stopped. The returned tuple is
  \<open>(mu1, mu2, pi1, pi2, log_likelihoods)\<close>, the first component of a \<open>fit_result\<close>. On the
  sample \<open>[0]\<close> the calls with tolerance 4 stop because the test passes in the second
  iteration (with 2 or with 100 iterations allowed), the call with tolerance 1 and 2 iterations
  allowed stops because the iterations are used up, and all three return the same tuple: only
  the printed line differs.
\<close>

theorem no_returned_indicator:
  "fst (em_algorithm exact_arith [0] (Fin 4) 2) = fst (em_algorithm exact_arith [0] (Fin 1) 2) \<and>
   fst (em_algorithm exact_arith [0] (Fin 4) 100) = fst (em_algorithm exact_arith [0] (Fin 1) 2) \<and>
   printed (em_algorithm exact_arith [0] (Fin 4) 2) = [Converged_after 1] \<and>
   printed (em_algorithm exact_arith [0] (Fin 4) 100) = [Converged_after 1] \<and>
   printed (em_algorithm exact_arith [0] (Fin 1) 2) = []"
  by (simp add: em_algorithm_def em_from_char single_zero_completed single_zero_stop_index
      split: prod.splits)

text \<open>
  Claim C1, as the code has it: for a positive \<open>max_iter\<close> the fit returns the parameters
  produced by the M-step of the last completed iteration and the whole trace, one entry per
  completed iteration, between 1 and \<open>max_iter\<close> entries. The reason for stopping is not
  returned; the convergence line is printed exactly when the test of the last completed
  iteration passed, and otherwise all \<open>max_iter\<close> iterations have run.
\<close>

theorem fit_returns_state_and_trace:
  assumes "0 < max_iter"
  shows "1 \<le> length (returned_trace (em_algorithm ops data tol max_iter)) \<and>
     length (returned_trace (em_algorithm ops data tol max_iter)) \<le> nat max_iter \<and>
     returned_params (em_algorithm ops data tol max_iter) =
       params_at ops initialize_parameters data
         (length (returned_trace (em_algorithm ops data tol max_iter))) \<and>
     returned_trace (em_algorithm ops data tol max_iter) =
       map (loglik_at ops initialize_parameters data)
         [0..<length (returned_trace (em_algorithm ops data tol max_iter))] \<and>
     printed (em_algorithm ops data tol max_iter) =
       (if stops_at ops initialize_parameters data tol
             (length (returned_trace (em_algorithm ops data tol max_iter)) - 1)
        then [Converged_after (length (returned_trace (em_algorithm ops data tol max_iter)) - 1)]
        else []) \<and>
     (stops_at ops initialize_parameters data tol
         (length (returned_trace (em_algorithm ops data tol max_iter)) - 1) \<or>
      length (returned_trace (em_algorithm ops data tol max_iter)) = nat max_iter)"
proof -
  let ?c = "completed ops initialize_parameters data tol max_iter"
  have len: "length (returned_trace (em_algorithm ops data tol max_iter)) = ?c"
    by (simp add: em_algorithm_def returned_trace_em_from)
  have pr: "printed (em_algorithm ops data tol max_iter) =
      (if stops_at ops initialize_parameters data tol (?c - 1)
       then [Converged_after (?c - 1)] else [])"
  proof (cases "stop_index ops initialize_parameters data tol max_iter")
    case None
    then have c: "?c = nat max_iter" by (simp add: completed_def)
    have "\<not> stops_at ops initialize_parameters data tol (nat max_iter - 1)"
      using assms by (intro stop_index_NoneD [OF None]) simp
    with None c show ?thesis by (simp add: em_algorithm_def printed_em_from)
  next
    case (Some k)
    then have "?c = Suc k" by (simp add: completed_def)
    with Some stop_index_SomeD(2) [OF Some] show ?thesis
      by (simp add: em_algorithm_def printed_em_from)
  qed
  have alt: "stops_at ops initialize_parameters data tol (?c - 1) \<or> ?c = nat max_iter"
    by (cases "stop_index ops initialize_parameters data tol max_iter")
      (auto simp: completed_def dest: stop_index_SomeD(2))
  show ?thesis
    unfolding len
    using completed_bounds(1) [of ops initialize_parameters data tol max_iter]
      completed_bounds(2) [OF assms, of ops initialize_parameters data tol] pr alt
    by (simp add: em_algorithm_def returned_trace_em_from returned_params_em_from Suc_le_eq)
qed

theorem fit_returns_state_and_trace_witness:
  "(0::int) < 2 \<and>
   length (returned_trace (em_algorithm exact_arith [0] (Fin 4) 2)) \<le> nat 2 \<and>
   returned_params (em_algorithm exact_arith [0] (Fin 4) 2) =
     params_at exact_arith initialize_parameters [0]
       (length (returned_trace (em_algorithm exact_arith [0] (Fin 4) 2)))"
  using fit_returns_state_and_trace [of 2 exact_arith "[0]" "Fin 4"] by simp

subsection \<open>The trace\<close>

lemma e_step_total:
  "e_step ops data s = (r1, r2, t) \<Longrightarrow>
   t = map2 (np_add ops) (fst (unnormalised ops data s)) (snd (unnormalised ops data s))"
  by (cases s) (auto simp: e_step_def unnormalised_def Let_def)

lemma log_likelihood_unnormalised:
  "log_likelihood ops data s =
     np_sum ops (map (np_log ops)
       (map2 (np_add ops) (fst (unnormalised ops data s)) (snd (unnormalised ops data s))))"
proof -
  obtain r1 r2 t where e: "e_step ops data s = (r1, r2, t)" by (cases "e_step ops data s")
  show ?thesis
    unfolding log_likelihood_def e prod.case e_step_total [OF e] ..
qed

text \<open>
  Claim C6. The trace has one entry per completed iteration. Entry \<open>k\<close> is
  \<^verbatim>\<open>np.sum(np.log(u1 + u2))\<close> for the unnormalised arrays \<open>u1\<close>, \<open>u2\<close> that the E-step of
  iteration \<open>k\<close> computes from the parameters the iteration starts with; the body of the loop
  appends exactly this one value, and goes on to the parameters of iteration \<open>k + 1\<close>. This
  holds for every arithmetic and every sample.
\<close>

theorem trace_entries:
  "returned_trace (em_algorithm ops data tol max_iter) =
     map (\<lambda>k. np_sum ops (map (np_log ops)
                (map2 (np_add ops)
                   (fst (unnormalised ops data (params_at ops initialize_parameters data k)))
                   (snd (unnormalised ops data (params_at ops initialize_parameters data k))))))
       [0..<completed ops initialize_parameters data tol max_iter] \<and>
   iteration_body ops data (params_at ops initialize_parameters data k, lls) =
     (params_at ops initialize_parameters data (Suc k),
      lls @ [np_sum ops (map (np_log ops)
                (map2 (np_add ops)
                   (fst (unnormalised ops data (params_at ops initialize_parameters data k)))
                   (snd (unnormalised ops data (params_at ops initialize_parameters data k)))))])"
  by (simp add: em_algorithm_def returned_trace_em_from iteration_body_eq params_at_Suc
      loglik_at_def log_likelihood_unnormalised)


subsection \<open>Running the loop again from the returned state\<close>

text \<open>
  Claim C2, as the code has it. \<^verbatim>\<open>em_algorithm\<close> takes no initial state, so the second run is
  the loop started from the returned parameters. With \<open>K\<close> the number of iterations the first
  fit completed, the second run continues the same sequence: its entry \<open>j\<close> is the
  log-likelihood \<open>\<ell>\<^sub>K\<^sub>+\<^sub>j\<close> of the first sequence. Its first iteration never tests for
  convergence, so with at least two iterations allowed its trace has at least two entries,
  and a trace of one entry is never reported as converged. It stops in its second iteration,
  with a trace of exactly two entries and the convergence line, exactly when
  \<open>|\<ell>\<^sub>K\<^sub>+\<^sub>1 - \<ell>\<^sub>K| < tol\<close>.
\<close>

theorem refit_continues:
  assumes S: "S = returned_params (em_algorithm ops data tol max_iter)"
    and K: "K = length (returned_trace (em_algorithm ops data tol max_iter))"
  shows "returned_trace (em_from ops S data tol n) =
           map (\<lambda>j. loglik_at ops initialize_parameters data (j + K))
             [0..<length (returned_trace (em_from ops S data tol n))] \<and>
         returned_params (em_from ops S data tol n) =
           params_at ops initialize_parameters data
             (length (returned_trace (em_from ops S data tol n)) + K) \<and>
         (length (returned_trace (em_from ops S data tol n)) = 1 \<longrightarrow>
            printed (em_from ops S data tol n) = []) \<and>
         (2 \<le> n \<longrightarrow> 2 \<le> length (returned_trace (em_from ops S data tol n))) \<and>
         (2 \<le> n \<longrightarrow>
            (length (returned_trace (em_from ops S data tol n)) = 2 \<and>
             printed (em_from ops S data tol n) = [Converged_after 1]) =
            np_less (np_abs (np_sub ops (loglik_at ops initialize_parameters data (K + 1))
                                        (loglik_at ops initialize_parameters data K))) tol)"
proof -
  have Kc: "K = completed ops initialize_parameters data tol max_iter"
    by (simp add: K em_algorithm_def length_trace_em_from)
  have Sp: "S = params_at ops initialize_parameters data K"
    by (simp add: S Kc em_algorithm_def returned_params_em_from)
  let ?c = "completed ops S data tol n"
  have l: "loglik_at ops S data j = loglik_at ops initialize_parameters data (j + K)" for j
    by (simp add: Sp loglik_at_add)
  have p: "params_at ops S data j = params_at ops initialize_parameters data (j + K)" for j
    by (simp add: Sp params_at_add)
  have st1: "stops_at ops S data tol (Suc 0) =
     np_less (np_abs (np_sub ops (loglik_at ops initialize_parameters data (K + 1))
                                 (loglik_at ops initialize_parameters data K))) tol"
    by (simp add: stops_at_def l)
  have one: "printed (em_from ops S data tol n) = []" if "?c = 1"
    using that by (auto simp: printed_em_from completed_def dest: stop_index_SomeD(3)
        split: option.splits)
  have two: "(?c = 2 \<and> printed (em_from ops S data tol n) = [Converged_after 1]) =
             stops_at ops S data tol (Suc 0)" if "2 \<le> n"
  proof
    assume "?c = 2 \<and> printed (em_from ops S data tol n) = [Converged_after 1]"
    then have "stop_index ops S data tol n = Some 1"
      by (auto simp: printed_em_from split: option.splits)
    then show "stops_at ops S data tol (Suc 0)"
      using stop_index_SomeD(2) by fastforce
  next
    assume "stops_at ops S data tol (Suc 0)"
    then have "stop_index ops S data tol n = Some (Suc 0)"
      using that by (intro stop_index_SomeI) (simp_all add: not_stops_at_0)
    then show "?c = 2 \<and> printed (em_from ops S data tol n) = [Converged_after 1]"
      by (simp add: printed_em_from completed_def)
  qed
  show ?thesis
    unfolding length_trace_em_from
    using one two completed_ge_2 [of n ops S data tol]
    by (simp add: returned_trace_em_from returned_params_em_from l p st1)
qed

lemma refit_single_zero:
  "returned_params (em_algorithm exact_arith [0] (Fin 4) 100) =
     params_at exact_arith initialize_parameters [0] 2"
  "length (returned_trace (em_algorithm exact_arith [0] (Fin 4) 100)) = 2"
  "2 \<le> n \<Longrightarrow>
   stop_index exact_arith (params_at exact_arith initialize_parameters [0] 2) [0] (Fin 4) n
     = Some (Suc 0)"
  "stop_index exact_arith (params_at exact_arith initialize_parameters [0] 2) [0] (Fin 4) 1
     = None"
proof -
  show "returned_params (em_algorithm exact_arith [0] (Fin 4) 100) =
     params_at exact_arith initialize_parameters [0] 2"
    by (simp add: em_algorithm_def returned_params_em_from single_zero_completed)
  show "length (returned_trace (em_algorithm exact_arith [0] (Fin 4) 100)) = 2"
    by (simp add: em_algorithm_def length_trace_em_from single_zero_completed)
  have l: "loglik_at exact_arith (params_at exact_arith initialize_parameters [0] 2) [0] j
           = Fin 0" for j
    using loglik_single_zero_later [of "Suc j"] by (simp add: loglik_at_add)
  have "stops_at exact_arith (params_at exact_arith initialize_parameters [0] 2) [0] (Fin 4)
          (Suc 0)"
    by (simp add: stops_at_def l exact_sel r_sub_def)
  then show "stop_index exact_arith (params_at exact_arith initialize_parameters [0] 2) [0]
               (Fin 4) n = Some (Suc 0)" if "2 \<le> n"
    using that by (intro stop_index_SomeI) (simp_all add: not_stops_at_0)
  show "stop_index exact_arith (params_at exact_arith initialize_parameters [0] 2) [0] (Fin 4) 1
          = None"
    by (rule stop_index_NoneI) (simp add: not_stops_at_0)
qed

text \<open>
  Claim C2 says that the second fit has a trace of length 1. On the sample \<open>[0]\<close> with
  tolerance 4 the fit converges; the loop started again from the returned parameters
  converges with a trace of length 2.
\<close>

theorem refit_trace_has_two_entries:
  "printed (em_algorithm exact_arith [0] (Fin 4) 100) = [Converged_after 1] \<and>
   length (returned_trace
     (em_from exact_arith (returned_params (em_algorithm exact_arith [0] (Fin 4) 100))
        [0] (Fin 4) 100)) = 2 \<and>
   printed
     (em_from exact_arith (returned_params (em_algorithm exact_arith [0] (Fin 4) 100))
        [0] (Fin 4) 100) = [Converged_after 1]"
  unfolding refit_single_zero(1)
  by (simp add: em_algorithm_def printed_em_from length_trace_em_from completed_def
      single_zero_stop_index refit_single_zero(3))

theorem refit_continues_witness:
  "length (returned_trace
     (em_from exact_arith (returned_params (em_algorithm exact_arith [0] (Fin 4) 100))
        [0] (Fin 4) 1)) = 1 \<and>
   printed
     (em_from exact_arith (returned_params (em_algorithm exact_arith [0] (Fin 4) 100))
        [0] (Fin 4) 1) = [] \<and>
   (2::int) \<le> 100 \<and>
   2 \<le> length (returned_trace
     (em_from exact_arith (returned_params (em_algorithm exact_arith [0] (Fin 4) 100))
        [0] (Fin 4) 100)) \<and>
   returned_params
     (em_from exact_arith (returned_params (em_algorithm exact_arith [0] (Fin 4) 100))
        [0] (Fin 4) 100) = params_at exact_arith initialize_parameters [0] 4"
proof -
  have a: "length (returned_trace
     (em_from exact_arith (returned_params (em_algorithm exact_arith [0] (Fin 4) 100))
        [0] (Fin 4) 1)) = 1"
    unfolding refit_single_zero(1)
    by (simp add: length_trace_em_from completed_def refit_single_zero(4))
  have b: "length (returned_trace
     (em_from exact_arith (returned_params (em_algorithm exact_arith [0] (Fin 4) 100))
        [0] (Fin 4) 100)) = 2"
    unfolding refit_single_zero(1)
    by (simp add: length_trace_em_from completed_def refit_single_zero(3))
  show ?thesis
    using refit_continues [OF refl refl, of exact_arith "[0]" "Fin 4" 100 1]
      refit_continues [OF refl refl, of exact_arith "[0]" "Fin 4" 100 100]
    unfolding a b refit_single_zero(2)
    by simp
qed


subsection \<open>Malformed input\<close>

lemma one_iteration:
  "em_from ops s0 data tol 1 =
     (case em_step ops data s0 of
        (mu1, mu2, pi1, pi2) \<Rightarrow> ((mu1, mu2, pi1, pi2, [log_likelihood ops data s0]), []))"
proof -
  have si: "stop_index ops s0 data tol 1 = None"
    by (rule stop_index_NoneI) (simp add: not_stops_at_0)
  then have c: "completed ops s0 data tol 1 = Suc 0" by (simp add: completed_def)
  show ?thesis
    unfolding em_from_char c si
    by (simp add: params_at_def loglik_at_def)
qed

lemma negative_count_step:
  "em_step exact_arith [- 1] initialize_parameters = (NaN, NaN, NaN, NaN)"
  "log_likelihood exact_arith [- 1] initialize_parameters = PInf"
proof -
  have u: "weighted_pmf exact_arith (Fin (1 / 2)) (Fin 2) (- 1) = PInf"
    "weighted_pmf exact_arith (Fin (1 / 2)) (Fin 5) (- 1) = PInf"
    by (simp_all add: weighted_pmf_def exact_sel r_factorial_def inf_signed_def)
  have e: "e_step exact_arith [- 1] initialize_parameters = ([NaN], [NaN], [PInf])"
    by (simp add: e_step_def initialize_parameters_def u exact_sel)
  show "em_step exact_arith [- 1] initialize_parameters = (NaN, NaN, NaN, NaN)"
    unfolding em_step_def e
    by (simp add: m_step_def exact_sel r_mean_def r_sum_def r_sub_def count_def)
  show "log_likelihood exact_arith [- 1] initialize_parameters = PInf"
    unfolding log_likelihood_def e
    by (simp add: exact_sel r_sum_def)
qed

text \<open>
  Claim C3 says that a malformed input is rejected before any iteration runs. The call
  \<^verbatim>\<open>em_algorithm(np.array([]))\<close> with the default tolerance and iteration cap is not rejected:
  two iterations run, every parameter becomes \<^verbatim>\<open>nan\<close> (the mean of an empty array, and 0/0),
  both log-likelihoods are the empty sum 0, and the run is reported as converged. The sample
  with the single count \<open>-1\<close> is not rejected either: its factorial is 0, both unnormalised
  responsibilities are \<^verbatim>\<open>inf\<close>, and the first iteration leaves \<^verbatim>\<open>nan\<close> parameters and the
  log-likelihood \<^verbatim>\<open>inf\<close>.
\<close>

theorem malformed_samples_accepted:
  "em_algorithm exact_arith [] default_tol default_max_iter =
     ((NaN, NaN, NaN, NaN, [Fin 0, Fin 0]), [Converged_after 1]) \<and>
   em_algorithm exact_arith [- 1] default_tol 1 = ((NaN, NaN, NaN, NaN, [PInf]), [])"
proof -
  have si: "stop_index exact_arith initialize_parameters [] default_tol default_max_iter
            = Some (Suc 0)"
    unfolding default_tol_def default_max_iter_def by (rule stop_index_empty) simp_all
  then have c: "completed exact_arith initialize_parameters [] default_tol default_max_iter
                = Suc (Suc 0)"
    by (simp add: completed_def)
  have a: "em_algorithm exact_arith [] default_tol default_max_iter =
     ((NaN, NaN, NaN, NaN, [Fin 0, Fin 0]), [Converged_after 1])"
    unfolding em_algorithm_def em_from_char c si
    by (simp add: params_at_empty loglik_at_empty)
  have b: "em_algorithm exact_arith [- 1] default_tol 1 = ((NaN, NaN, NaN, NaN, [PInf]), [])"
    unfolding em_algorithm_def one_iteration negative_count_step by simp
  from a b show ?thesis by simp
qed

text \<open>
  Claim C3, as the code has it: there is no validation. Whatever the sample (empty, or with
  negative counts), a positive \<open>max_iter\<close> runs the first E-step and M-step on it: the trace is
  not empty, its first entry is the log-likelihood of the sample under the built-in initial
  parameters, and the returned parameters are the output of an M-step.
\<close>

theorem no_validation:
  assumes "0 < max_iter"
  shows "returned_trace (em_algorithm ops data tol max_iter) \<noteq> [] \<and>
         hd (returned_trace (em_algorithm ops data tol max_iter)) =
           log_likelihood ops data initialize_parameters \<and>
         returned_params (em_algorithm ops data tol max_iter) =
           em_step ops data
             (params_at ops initialize_parameters data
                (length (returned_trace (em_algorithm ops data tol max_iter)) - 1))"
proof -
  let ?c = "completed ops initialize_parameters data tol max_iter"
  have "0 < ?c" using assms by (rule completed_bounds(2))
  then obtain k where k: "?c = Suc k" by (cases ?c) simp_all
  have "[0..<Suc k] = 0 # [Suc 0..<Suc k]" by (simp add: upt_conv_Cons)
  then have "hd (map (loglik_at ops initialize_parameters data) [0..<Suc k]) =
             loglik_at ops initialize_parameters data 0"
    by simp
  then show ?thesis
    unfolding em_algorithm_def returned_trace_em_from returned_params_em_from k
    by (simp add: loglik_at_def params_at_0 params_at_Suc del: upt_Suc)
qed

theorem no_validation_witness:
  "(0::int) < 1 \<and>
   returned_trace (em_algorithm exact_arith [- 1] default_tol 1) \<noteq> [] \<and>
   hd (returned_trace (em_algorithm exact_arith [- 1] default_tol 1)) =
     log_likelihood exact_arith [- 1] initialize_parameters"
  using no_validation [of 1 exact_arith "[- 1]" default_tol] by simp

subsection \<open>A component without responsibility mass\<close>

lemma r_div_zero_not_finite: "\<not> is_finite (r_div clip x (Fin 0))"
  by (cases x) (simp_all add: inf_signed_def)

text \<open>
  Claim C4 says that the fit aborts with an error when a component's responsibility mass is
  zero. On the empty sample both masses are the empty sum 0 in the first iteration; the
  call divides by them and returns \<^verbatim>\<open>nan\<close> parameters.
\<close>

theorem degenerate_component_returned:
  "mass1 exact_arith [] initialize_parameters = Fin 0 \<and>
   mass2 exact_arith [] initialize_parameters = Fin 0 \<and>
   em_algorithm exact_arith [] default_tol 1 = ((NaN, NaN, NaN, NaN, [Fin 0]), [])"
  unfolding em_algorithm_def one_iteration
  by (simp add: mass1_def mass2_def e_step_empty em_step_empty log_likelihood_empty
      exact_sel r_sum_def)

text \<open>
  Claim C4, as the code has it: the division is not guarded. For every arithmetic in which a
  division by zero gives an infinity or \<^verbatim>\<open>nan\<close>, as in float64: when the mass of a component
  is zero in iteration \<open>k\<close>, the mean of that component is not a finite number in the
  parameters that iteration produces; the run is not stopped by it, and when \<open>k\<close> is the last
  completed iteration these are the returned parameters.
\<close>

theorem degenerate_mass_unguarded:
  assumes "\<forall>x. \<not> is_finite (np_div ops x (Fin 0))"
  shows "(mass1 ops data (params_at ops initialize_parameters data k) = Fin 0 \<longrightarrow>
            \<not> is_finite (fst (params_at ops initialize_parameters data (Suc k)))) \<and>
         (mass2 ops data (params_at ops initialize_parameters data k) = Fin 0 \<longrightarrow>
            \<not> is_finite (fst (snd (params_at ops initialize_parameters data (Suc k))))) \<and>
         (Suc k = length (returned_trace (em_algorithm ops data tol max_iter)) \<and>
          mass1 ops data (params_at ops initialize_parameters data k) = Fin 0 \<longrightarrow>
            \<not> is_finite (fst (returned_params (em_algorithm ops data tol max_iter)))) \<and>
         (Suc k = length (returned_trace (em_algorithm ops data tol max_iter)) \<and>
          mass2 ops data (params_at ops initialize_parameters data k) = Fin 0 \<longrightarrow>
            \<not> is_finite (fst (snd (returned_params (em_algorithm ops data tol max_iter)))))"
proof -
  let ?s = "params_at ops initialize_parameters data k"
  obtain r1 r2 t where e: "e_step ops data ?s = (r1, r2, t)" by (cases "e_step ops data ?s")
  have step: "params_at ops initialize_parameters data (Suc k) = m_step ops data r1 r2"
    by (simp add: params_at_Suc [symmetric] em_step_def e del: funpow.simps)
  have m1: "\<not> is_finite (fst (params_at ops initialize_parameters data (Suc k)))"
    if "mass1 ops data ?s = Fin 0"
    using that assms unfolding step by (simp add: mass1_def e m_step_def Let_def)
  have m2: "\<not> is_finite (fst (snd (params_at ops initialize_parameters data (Suc k))))"
    if "mass2 ops data ?s = Fin 0"
    using that assms unfolding step by (simp add: mass2_def e m_step_def Let_def)
  have r: "returned_params (em_algorithm ops data tol max_iter) =
           params_at ops initialize_parameters data (Suc k)"
    if "Suc k = length (returned_trace (em_algorithm ops data tol max_iter))"
    using that by (simp add: em_algorithm_def returned_params_em_from length_trace_em_from)
  show ?thesis using m1 m2 r by metis
qed

theorem degenerate_mass_unguarded_witness:
  "mass1 exact_arith [] (params_at exact_arith initialize_parameters [] 0) = Fin 0 \<and>
   mass2 exact_arith [] (params_at exact_arith initialize_parameters [] 0) = Fin 0 \<and>
   Suc 0 = length (returned_trace (em_algorithm exact_arith [] default_tol 1)) \<and>
   \<not> is_finite (fst (returned_params (em_algorithm exact_arith [] default_tol 1))) \<and>
   \<not> is_finite (fst (snd (returned_params (em_algorithm exact_arith [] default_tol 1))))"
proof -
  have d: "\<forall>x. \<not> is_finite (np_div exact_arith x (Fin 0))"
    by (simp add: exact_sel r_div_zero_not_finite)
  have m: "mass1 exact_arith [] (params_at exact_arith initialize_parameters [] 0) = Fin 0"
    "mass2 exact_arith [] (params_at exact_arith initialize_parameters [] 0) = Fin 0"
    by (simp_all add: mass1_def mass2_def e_step_empty exact_sel r_sum_def)
  have l: "Suc 0 = length (returned_trace (em_algorithm exact_arith [] default_tol 1))"
    by (simp add: em_algorithm_def one_iteration split: prod.splits)
  from degenerate_mass_unguarded [OF d, of "[]" 0 default_tol 1] m l
  show ?thesis by blast
qed


subsection \<open>The weights\<close>


lemma exact_add_sub:
  "\<forall>p. np_sub exact_arith (Fin 1) (Fin p) = Fin (1 - p)"
  "\<forall>a b. np_add exact_arith (Fin a) (Fin b) = Fin (a + b)"
  "\<forall>a b. b \<noteq> 0 \<longrightarrow> np_div exact_arith (Fin a) (Fin b) = Fin (a / b)"
  by (simp_all add: exact_sel r_sub_def)












subsection \<open>The normalised responsibilities\<close>

text \<open>
  Claim C9. Under exact addition and division (real arithmetic), for every state the E-step
  starts from and every sample point whose unnormalised responsibilities \<open>u1\<close>, \<open>u2\<close> are
  real numbers with \<open>u1 + u2 \<noteq> 0\<close>: the normalised \<open>r1 = u1 / (u1 + u2)\<close> and
  \<open>r2 = u2 / (u1 + u2)\<close> sum to one.
\<close>

theorem responsibilities_sum_to_one:
  assumes "\<forall>a b. np_add ops (Fin a) (Fin b) = Fin (a + b)"
    and "\<forall>a b. b \<noteq> 0 \<longrightarrow> np_div ops (Fin a) (Fin b) = Fin (a / b)"
    and "i < length data"
    and "fst (unnormalised ops data s) ! i = Fin a"
    and "snd (unnormalised ops data s) ! i = Fin b"
    and "a + b \<noteq> 0"
  shows "case e_step ops data s of
           (r1, r2, total_responsibility) \<Rightarrow>
             total_responsibility ! i = Fin (a + b) \<and>
             r1 ! i = Fin (a / (a + b)) \<and> r2 ! i = Fin (b / (a + b)) \<and>
             np_add ops (r1 ! i) (r2 ! i) = Fin 1"
proof -
  obtain mu1 mu2 pi1 pi2 where s: "s = (mu1, mu2, pi1, pi2)" by (cases s)
  have u: "weighted_pmf ops pi1 mu1 (data ! i) = Fin a" "weighted_pmf ops pi2 mu2 (data ! i) = Fin b"
    using assms(3,4,5) by (simp_all add: s unnormalised_def)
  have "a / (a + b) + b / (a + b) = 1"
    using assms(6) by (simp add: add_divide_distrib [symmetric])
  then show ?thesis
    using assms(1,2,3,6) u by (simp add: s e_step_def Let_def)
qed

theorem responsibilities_sum_to_one_witness:
  "(0::nat) < length [0::int] \<and>
   fst (unnormalised exact_arith [0] initialize_parameters) ! 0 = Fin (1 / 2 * exp (- 2)) \<and>
   snd (unnormalised exact_arith [0] initialize_parameters) ! 0 = Fin (1 / 2 * exp (- 5)) \<and>
   1 / 2 * exp (- 2) + 1 / 2 * exp (- 5) \<noteq> (0::real) \<and>
   (case e_step exact_arith [0] initialize_parameters of
      (r1, r2, total_responsibility) \<Rightarrow> np_add exact_arith (r1 ! 0) (r2 ! 0) = Fin 1)"
proof -
  have u: "fst (unnormalised exact_arith [0] initialize_parameters) ! 0 = Fin (1 / 2 * exp (- 2))"
    "snd (unnormalised exact_arith [0] initialize_parameters) ! 0 = Fin (1 / 2 * exp (- 5))"
    by (simp_all add: unnormalised_def initialize_parameters_def weighted_pmf_exact_0)
  have n: "1 / 2 * exp (- 2) + 1 / 2 * exp (- 5) \<noteq> (0::real)"
    using add_pos_pos [of "1 / 2 * exp (- 2 :: real)" "1 / 2 * exp (- 5 :: real)"] by simp
  have i: "(0::nat) < length [0::int]" by simp
  from responsibilities_sum_to_one [OF exact_add_sub(2,3) i u n] u n i
  show ?thesis by (auto split: prod.splits)
qed

subsection \<open>The built-in initial state\<close>





subsection \<open>The sample with the counts 0 and 170\<close>







lemma weighted_value_bounds:
  fixes w m :: real
  assumes "0 \<le> w" "w \<le> 1" "0 \<le> m"
  shows "0 \<le> w * exp (- m) * m ^ n / fact n" "w * exp (- m) * m ^ n / fact n \<le> m ^ n"
proof -
  let ?x = "w * exp (- m) * m ^ n"
  have x: "0 \<le> ?x" using assms(1,3) by simp
  then show "0 \<le> ?x / fact n" by simp
  have "w * exp (- m) \<le> 1" using assms by (simp add: mult_le_one)
  then have "?x \<le> 1 * m ^ n" using assms(3) by (intro mult_right_mono) simp_all
  then have xm: "?x \<le> m ^ n" by simp
  have "(1::real) \<le> fact n" by (rule fact_ge_1)
  then have "?x / fact n \<le> ?x / 1" using x by (intro divide_left_mono) simp_all
  then show "?x / fact n \<le> m ^ n" using xm by simp
qed











subsection \<open>The iteration and the reference step\<close>




end
